theory Spec2Isabelle
  imports Complex_Main "HOL-Library.Multiset"
begin

section \<open>Data model\<close>

text \<open>
  The two scripts drive a host application (Maya) through its scene API. The host's scene
  is modelled as a record holding exactly what the scripts query and mutate. Python floats
  are idealised as real numbers (no rounding, no overflow); the one non-finite value the
  code can produce by itself, the \<open>nan\<close> that \<open>numpy.mean\<close> returns for an empty list, is
  kept as a value of its own.
\<close>

type_synonym vec3 = "real \<times> real \<times> real"

text \<open>A numpy value as \<open>framefit_animrig\<close> handles it: a 3-vector, or \<open>nan\<close>.\<close>

datatype npval = Arr vec3 | NaN

text \<open>The exceptions (subclasses of Python's \<open>Exception\<close>) the scripts raise or catch.\<close>

datatype exn = AssertionError string | RuntimeError string | OtherException string

text \<open>The list \<open>[x_min, y_min, z_min, x_max, y_max, z_max]\<close> of a bounding extent.\<close>

record bounds =
  min_x :: real
  min_y :: real
  min_z :: real
  max_x :: real
  max_y :: real
  max_z :: real

record scene =
  shapes_of :: "string \<Rightarrow> string list"
    \<comment> \<open>\<open>cmds.listRelatives(n, shapes=True)\<close>; the empty list stands for \<open>None\<close>\<close>
  curve_cvs :: "string \<Rightarrow> vec3 list option"
    \<comment> \<open>\<open>MFnNurbsCurve(path).getCVs(kWorld)\<close>; \<open>None\<close> when the constructor raises
        \<open>RuntimeError\<close> (the shape is not a NURBS curve)\<close>
  invisible :: "string list"
    \<comment> \<open>\<open>cmds.ls(invisible=True, dag=True)\<close>\<close>
  cam_pos :: "string \<Rightarrow> npval"
    \<comment> \<open>world-space translation, read and written by \<open>cmds.xform(ws=True, t=...)\<close>\<close>
  attrs :: "string \<Rightarrow> real"
    \<comment> \<open>numeric attributes, \<open>cmds.getAttr\<close> / \<open>cmds.setAttr\<close>\<close>
  selection :: "string list"
    \<comment> \<open>the active selection, \<open>cmds.ls(sl=True)\<close> / \<open>cmds.select\<close>\<close>
  is_xform :: "string \<Rightarrow> bool"
    \<comment> \<open>the node's type is \<open>transform\<close> or \<open>joint\<close>\<close>
  rig_controls :: "string list"
    \<comment> \<open>\<open>cmds.ls(['*_anim', '*_control'], type=['transform', 'joint'], r=True)\<close>\<close>
  panel_camera :: "string option"
    \<comment> \<open>\<open>cmds.modelEditor(cmds.getPanel(wf=True), q=True, camera=True)\<close>; \<open>None\<close> when it
        raises \<open>RuntimeError\<close>\<close>
  undo_depth :: nat
    \<comment> \<open>number of undo chunks currently open\<close>

section \<open>Vector arithmetic\<close>

definition vadd :: "vec3 \<Rightarrow> vec3 \<Rightarrow> vec3" where
  "vadd a b = (case a of (ax, ay, az) \<Rightarrow> case b of (bx, by, bz) \<Rightarrow> (ax + bx, ay + by, az + bz))"

definition vsub :: "vec3 \<Rightarrow> vec3 \<Rightarrow> vec3" where
  "vsub a b = (case a of (ax, ay, az) \<Rightarrow> case b of (bx, by, bz) \<Rightarrow> (ax - bx, ay - by, az - bz))"

definition vscale :: "vec3 \<Rightarrow> real \<Rightarrow> vec3" where
  "vscale a k = (case a of (ax, ay, az) \<Rightarrow> (ax * k, ay * k, az * k))"

text \<open>Elementwise numpy arithmetic; \<open>nan\<close> is absorbing.\<close>

fun np_add :: "npval \<Rightarrow> npval \<Rightarrow> npval" where
  "np_add (Arr a) (Arr b) = Arr (vadd a b)"
| "np_add _ _ = NaN"

fun np_sub :: "npval \<Rightarrow> npval \<Rightarrow> npval" where
  "np_sub (Arr a) (Arr b) = Arr (vsub a b)"
| "np_sub _ _ = NaN"

fun np_scale :: "npval \<Rightarrow> real \<Rightarrow> npval" where
  "np_scale (Arr a) k = Arr (vscale a k)"
| "np_scale NaN k = NaN"

text \<open>
  \<open>numpy.mean(points, axis=0)\<close>: the elementwise mean of a list of 3-vectors, and \<open>nan\<close>
  (with a warning, not an exception) for the empty list.
\<close>

definition np_mean :: "vec3 list \<Rightarrow> npval" where
  "np_mean ps =
     (if ps = [] then NaN
      else Arr (sum_list (map fst ps) / real (length ps),
                sum_list (map (fst \<circ> snd) ps) / real (length ps),
                sum_list (map (snd \<circ> snd) ps) / real (length ps)))"

text \<open>Python's \<open>int(x)\<close> on a float: truncation toward zero.\<close>

definition py_int :: "real \<Rightarrow> int" where
  "py_int x = (if 0 \<le> x then \<lfloor>x\<rfloor> else \<lceil>x\<rceil>)"

section \<open>Host commands\<close>

definition select :: "string list \<Rightarrow> scene \<Rightarrow> scene" where
  "select xs s = s\<lparr>selection := xs\<rparr>"

definition xform_set :: "string \<Rightarrow> npval \<Rightarrow> scene \<Rightarrow> scene" where
  "xform_set cam p s = s\<lparr>cam_pos := (cam_pos s)(cam := p)\<rparr>"

definition setAttr :: "string \<Rightarrow> real \<Rightarrow> scene \<Rightarrow> scene" where
  "setAttr a v s = s\<lparr>attrs := (attrs s)(a := v)\<rparr>"

definition undo_open :: "scene \<Rightarrow> scene" where
  "undo_open s = s\<lparr>undo_depth := Suc (undo_depth s)\<rparr>"

definition undo_close :: "scene \<Rightarrow> scene" where
  "undo_close s = s\<lparr>undo_depth := undo_depth s - 1\<rparr>"

section \<open>framefit.py\<close>

subsection \<open>get_all_rig_controls\<close>

definition get_all_rig_controls :: "scene \<Rightarrow> string list" where
  "get_all_rig_controls s = rig_controls s"

subsection \<open>get_bounds_of_anim_control_shapes\<close>

text \<open>The "massive initial bound volume".\<close>

definition initial_bounds :: bounds where
  "initial_bounds =
     \<lparr>min_x = 9999999, min_y = 9999999, min_z = 9999999,
      max_x = -9999999, max_y = -9999999, max_z = -9999999\<rparr>"

text \<open>The body of the inner loop over the control vertices of one curve.\<close>

definition add_point :: "bounds \<Rightarrow> vec3 \<Rightarrow> bounds" where
  "add_point b p =
     (case p of (px, py, pz) \<Rightarrow>
        \<lparr>min_x = min px (min_x b), min_y = min py (min_y b), min_z = min pz (min_z b),
         max_x = max px (max_x b), max_y = max py (max_y b), max_z = max pz (max_z b)\<rparr>)"

text \<open>
  The body of the outer loop: a shape that is not a NURBS curve is skipped
  (\<open>except RuntimeError: continue\<close>).
\<close>

definition add_shape :: "scene \<Rightarrow> bounds \<Rightarrow> string \<Rightarrow> bounds" where
  "add_shape s b path =
     (case curve_cvs s path of
        None \<Rightarrow> b
      | Some point_list \<Rightarrow> foldl add_point b point_list)"

text \<open>
  The function selects the shapes and reads them back from the active selection by index.
  The assertion is checked before anything is mutated.
\<close>

definition get_bounds_of_anim_control_shapes :: "scene \<Rightarrow> string \<Rightarrow> (exn + bounds) \<times> scene" where
  "get_bounds_of_anim_control_shapes s control =
     (let shapes = shapes_of s control in
      if shapes = [] then (Inl (AssertionError (''No shapes on control '' @ control)), s)
      else
        let s' = select shapes s;
            selection_list = selection s';
            paths = map (\<lambda>i. selection_list ! i) [0..<length shapes]
        in (Inr (foldl (add_shape s') initial_bounds paths), s'))"

subsection \<open>get_centre_in_bounds\<close>

definition get_centre_in_bounds :: "bounds \<Rightarrow> vec3" where
  "get_centre_in_bounds b =
     (let min_bounds = (min_x b, min_y b, min_z b);
          max_bounds = (max_x b, max_y b, max_z b);
          vector = vsub min_bounds max_bounds;
          centre_pos = vadd max_bounds (vscale vector 0.5)
      in centre_pos)"

subsection \<open>framefit_animrig\<close>

text \<open>
  The first loop keeps the targets that have a shape and collects their shapes, in order.
\<close>

definition clean_step :: "scene \<Rightarrow> string list \<times> string list \<Rightarrow> string \<Rightarrow> string list \<times> string list" where
  "clean_step s acc i =
     (case acc of (shapes, targets') \<Rightarrow>
        let sh = shapes_of s i in
        if sh = [] then (shapes, targets') else (shapes @ sh, targets' @ [i]))"

definition clean_targets :: "scene \<Rightarrow> string list \<Rightarrow> string list \<times> string list" where
  "clean_targets s targets = foldl (clean_step s) ([], []) targets"

text \<open>
  \<open>set(targets).difference(set(invisible))\<close>: the targets without duplicates and without
  the invisible nodes. Python iterates a set in an arbitrary but fixed order; the model
  takes the order of first occurrence.
\<close>

definition set_difference :: "string list \<Rightarrow> string list \<Rightarrow> string list" where
  "set_difference targets invis = filter (\<lambda>i. i \<notin> set invis) (remdups targets)"

text \<open>
  The second loop: one centre point per remaining target. An \<open>AssertionError\<close> of
  \<open>get_bounds_of_anim_control_shapes\<close> skips the target, any other exception propagates.
\<close>

fun collect_centre_points :: "scene \<Rightarrow> string list \<Rightarrow> vec3 list \<Rightarrow> (exn + vec3 list) \<times> scene" where
  "collect_centre_points s [] centre_points = (Inr centre_points, s)"
| "collect_centre_points s (i # rest) centre_points =
     (case get_bounds_of_anim_control_shapes s i of
        (Inl (AssertionError m), s') \<Rightarrow> collect_centre_points s' rest centre_points
      | (Inl (RuntimeError m), s') \<Rightarrow> (Inl (RuntimeError m), s')
      | (Inl (OtherException m), s') \<Rightarrow> (Inl (OtherException m), s')
      | (Inr target_local_bounds, s') \<Rightarrow>
          collect_centre_points s' rest
            (centre_points @ [get_centre_in_bounds target_local_bounds]))"

text \<open>
  The host's \<open>cmds.viewFit(camera, allObjects=False, fitFactor=0.8)\<close> is not part of the
  repository: it is the parameter \<open>viewFit\<close>, an arbitrary transformation of the scene.
  The result is the exception that propagates, if any, and the scene the call leaves.
\<close>

definition framefit_animrig ::
  "(string \<Rightarrow> scene \<Rightarrow> scene) \<Rightarrow> string \<Rightarrow> string list \<Rightarrow> real \<Rightarrow> scene \<Rightarrow> exn option \<times> scene" where
  "framefit_animrig viewFit target_camera targets zoom_amount s =
     (let (shapes, targets') = clean_targets s targets in
      if targets' = [] then (None, s)
      else
        let s1 = select shapes s;
            s2 = viewFit target_camera s1;
            invis = invisible s2
        in case collect_centre_points s2 (set_difference targets' invis) [] of
             (Inl e, s3) \<Rightarrow> (Some e, s3)
           | (Inr centre_points, s3) \<Rightarrow>
               let centre_pos = np_mean centre_points in
               if zoom_amount = 0 then (None, s3)
               else
                 let camera_pos = cam_pos s3 target_camera;
                     vector = np_sub centre_pos camera_pos;
                     delta = max 0 (min zoom_amount 1);
                     moveto_pos = np_add camera_pos (np_scale vector delta);
                     s4 = xform_set target_camera moveto_pos s3;
                     coi_attr = target_camera @ ''.centerOfInterest'';
                     s5 = setAttr coi_attr (of_int (py_int (attrs s4 coi_attr * (1 - delta)))) s4
                 in (None, s5))"

subsection \<open>framefit_animrig_current_panel_to_selected\<close>

text \<open>
  The entry point, with the inner framing computation as a parameter: it may return any
  scene and raise any exception. \<open>except Exception\<close> swallows whatever it raises, and the
  \<open>finally\<close> block runs in both cases.
\<close>

definition framefit_animrig_current_panel_to_selected_with ::
  "(string \<Rightarrow> string list \<Rightarrow> real \<Rightarrow> scene \<Rightarrow> exn option \<times> scene) \<Rightarrow>
     string option \<Rightarrow> scene \<Rightarrow> exn option \<times> scene" where
  "framefit_animrig_current_panel_to_selected_with inner target_camera s =
     (let fallback = (case panel_camera s of None \<Rightarrow> ''persp'' | Some c \<Rightarrow> c);
          camera = (case target_camera of
                      None \<Rightarrow> fallback
                    | Some c \<Rightarrow> if c = [] then fallback else c);
          sel = selection s;
          s1 = undo_open s;
          selected = filter (is_xform s1) (selection s1);
          targets = (if selected = [] then get_all_rig_controls s1 else selected)
      in case inner camera targets 0.25 s1 of
           (raised, s2) \<Rightarrow>
             let swallowed = (case raised of None \<Rightarrow> None | Some e \<Rightarrow> None);
                 s3 = undo_close s2;
                 s4 = select sel s3
             in (swallowed, s4))"

definition framefit_animrig_current_panel_to_selected ::
  "(string \<Rightarrow> scene \<Rightarrow> scene) \<Rightarrow> string option \<Rightarrow> scene \<Rightarrow> exn option \<times> scene" where
  "framefit_animrig_current_panel_to_selected viewFit =
     framefit_animrig_current_panel_to_selected_with (framefit_animrig viewFit)"

section \<open>threaded_headless_mayas_example.py\<close>

text \<open>
  A target path is observed through \<open>str(path)\<close> and \<open>path.name\<close> only. A spawned
  process either exits with a return code and its captured output, or never exits.
\<close>

record target_path =
  path_str :: string
  path_name :: string

datatype process = Exited int string string | Hung

fun is_hung :: "process \<Rightarrow> bool" where
  "is_hung Hung = True"
| "is_hung (Exited rc out err) = False"

type_synonym results = "(string \<times> target_path) list \<times> (string \<times> target_path) list"

text \<open>
  The thread body, on the shared lists \<open>(success, errors)\<close>. It runs only once
  \<open>communicate()\<close> has returned; for a process that never exits it appends nothing.
\<close>

fun run_create_anim_threaded :: "results \<Rightarrow> process \<times> target_path \<Rightarrow> results" where
  "run_create_anim_threaded (success, errors) (Exited returncode out err, t) =
     (if returncode \<noteq> 0 then (success, errors @ [(err, t)])
      else (success @ [(''Success'', t)], errors))"
| "run_create_anim_threaded (success, errors) (Hung, t) = (success, errors)"

fun join :: "string \<Rightarrow> string list \<Rightarrow> string" where
  "join sep [] = []"
| "join sep [x] = x"
| "join sep (x # y # ys) = x @ sep @ join sep (y # ys)"

text \<open>
  \<open>anim_rig_generator\<close> from the point where every process has been spawned (the list
  \<open>processes\<close>). Each thread's only shared effect is one \<open>append\<close>; \<open>order\<close> lists the
  threads' indices in the order in which their appends happen. The result is \<open>None\<close> when
  a \<open>join\<close> never returns, and otherwise the printed lines and the exception raised.
\<close>

definition anim_rig_generator ::
  "(process \<times> target_path) list \<Rightarrow> nat list \<Rightarrow> (string list \<times> exn option) option" where
  "anim_rig_generator processes order =
     (if list_ex (\<lambda>i. is_hung (fst i)) processes then None
      else
        case foldl run_create_anim_threaded ([], []) (map (\<lambda>k. processes ! k) order) of
          (success, errors) \<Rightarrow>
            let printed = map (\<lambda>i. ''CreateAnim: '' @ path_str (snd i)) success @ map fst errors
            in if errors \<noteq> []
               then Some (printed,
                      Some (AssertionError
                        (''Failed Files: '' @ join '', '' (map (\<lambda>i. path_name (snd i)) errors))))
               else Some (printed, None))"

section \<open>Notions used to state the properties\<close>

text \<open>The control vertices sampled from a control: those of its curve shapes, in order.\<close>

definition sampled_points :: "scene \<Rightarrow> string \<Rightarrow> vec3 list" where
  "sampled_points s control =
     concat (map (\<lambda>sh. case curve_cvs s sh of None \<Rightarrow> [] | Some pts \<Rightarrow> pts) (shapes_of s control))"

definition clamp01 :: "real \<Rightarrow> real" where
  "clamp01 f = (if f < 0 then 0 else if 1 < f then 1 else f)"

definition exit_code :: "process \<Rightarrow> int" where
  "exit_code p = (case p of Exited rc out err \<Rightarrow> rc | Hung \<Rightarrow> 0)"

definition stderr_of :: "process \<Rightarrow> string" where
  "stderr_of p = (case p of Exited rc out err \<Rightarrow> err | Hung \<Rightarrow> [])"

text \<open>
  The centre point the second loop of \<open>framefit_animrig\<close> computes for a control with
  shapes, the points it collects for a list of controls, and the selection it leaves.
\<close>

definition control_centre :: "scene \<Rightarrow> string \<Rightarrow> vec3" where
  "control_centre s i =
     get_centre_in_bounds (foldl add_point initial_bounds (sampled_points s i))"

definition target_centres :: "scene \<Rightarrow> string list \<Rightarrow> vec3 list" where
  "target_centres s ts = map (control_centre s) (filter (\<lambda>i. shapes_of s i \<noteq> []) ts)"

definition loop_selection :: "scene \<Rightarrow> string list \<Rightarrow> string list" where
  "loop_selection s ts =
     foldl (\<lambda>sel i. if shapes_of s i = [] then sel else shapes_of s i) (selection s) ts"

text \<open>
  The scene after the initial auto-fit of \<open>framefit_animrig\<close> (the shapes selected, then
  the host's \<open>viewFit\<close>), and the centre points the function collects in it.
\<close>

definition fitted :: "(string \<Rightarrow> scene \<Rightarrow> scene) \<Rightarrow> string \<Rightarrow> string list \<Rightarrow> scene \<Rightarrow> scene" where
  "fitted viewFit target_camera targets s =
     viewFit target_camera (select (fst (clean_targets s targets)) s)"

definition centre_points_of ::
  "(string \<Rightarrow> scene \<Rightarrow> scene) \<Rightarrow> string \<Rightarrow> string list \<Rightarrow> scene \<Rightarrow> exn + vec3 list" where
  "centre_points_of viewFit target_camera targets s =
     (let s2 = fitted viewFit target_camera targets s
      in fst (collect_centre_points s2
                (set_difference (snd (clean_targets s targets)) (invisible s2)) []))"

section \<open>Example scenes\<close>

text \<open>
  Two controls whose curves span the extents \<open>(0,0,0,2,2,2)\<close> and \<open>(4,4,4,6,6,6)\<close>, a
  control whose only shape is not a curve, a node without shapes, and the camera
  \<open>persp\<close> at \<open>(3,3,-7)\<close> with a centre of interest of 2.5.
\<close>

definition example_scene :: scene where
  "example_scene =
     \<lparr>shapes_of = (\<lambda>n. if n = ''a_anim'' then [''a_animShape'']
                        else if n = ''b_anim'' then [''b_animShape'']
                        else if n = ''c_anim'' then [''c_animMesh'']
                        else []),
      curve_cvs = (\<lambda>n. if n = ''a_animShape'' then Some [(0, 0, 0), (2, 2, 2)]
                        else if n = ''b_animShape'' then Some [(4, 4, 4), (6, 6, 6)]
                        else None),
      invisible = [],
      cam_pos = (\<lambda>n. Arr (3, 3, -7)),
      attrs = (\<lambda>n. 5 / 2),
      selection = [''a_anim''],
      is_xform = (\<lambda>n. True),
      rig_controls = [''a_anim'', ''b_anim'', ''c_anim''],
      panel_camera = Some ''persp'',
      undo_depth = 0\<rparr>"

text \<open>The same scene with both curve controls hidden.\<close>

definition hidden_scene :: scene where
  "hidden_scene = example_scene\<lparr>invisible := [''a_anim'', ''b_anim'']\<rparr>"

text \<open>A host whose auto-fit leaves the scene alone, and one that moves the camera.\<close>

definition viewFit_none :: "string \<Rightarrow> scene \<Rightarrow> scene" where
  "viewFit_none cam s = s"

definition viewFit_far :: "string \<Rightarrow> scene \<Rightarrow> scene" where
  "viewFit_far cam s = xform_set cam (Arr (3, 3, -17)) s"

text \<open>An inner framing computation that moves the camera, changes the selection and raises.\<close>

definition failing_inner :: "string \<Rightarrow> string list \<Rightarrow> real \<Rightarrow> scene \<Rightarrow> exn option \<times> scene" where
  "failing_inner camera targets zoom_amount s =
     (Some (RuntimeError ''boom''), select targets (xform_set camera NaN s))"

text \<open>Three export jobs; the second one exits with code 1.\<close>

definition three_jobs :: "(process \<times> target_path) list" where
  "three_jobs =
     [(Exited 0 ''done'' [], \<lparr>path_str = ''out/A_Anim.mb'', path_name = ''A_Anim.mb''\<rparr>),
      (Exited 1 [] ''boom'', \<lparr>path_str = ''out/B_Anim.mb'', path_name = ''B_Anim.mb''\<rparr>),
      (Exited 0 ''done'' [], \<lparr>path_str = ''out/C_Anim.mb'', path_name = ''C_Anim.mb''\<rparr>)]"

section \<open>Auxiliary facts\<close>


lemma select_fields [simp]:
  "shapes_of (select xs s) = shapes_of s"
  "curve_cvs (select xs s) = curve_cvs s"
  "invisible (select xs s) = invisible s"
  "cam_pos (select xs s) = cam_pos s"
  "attrs (select xs s) = attrs s"
  "selection (select xs s) = xs"
  "is_xform (select xs s) = is_xform s"
  "rig_controls (select xs s) = rig_controls s"
  "panel_camera (select xs s) = panel_camera s"
  "undo_depth (select xs s) = undo_depth s"
  by (simp_all add: select_def)

lemma add_shape_select [simp]: "add_shape (select xs s) = add_shape s"
  by (rule ext)+ (simp add: add_shape_def)

lemma foldl_add_shape:
  "foldl (add_shape s) b shs =
     foldl add_point b (concat (map (\<lambda>sh. case curve_cvs s sh of None \<Rightarrow> [] | Some pts \<Rightarrow> pts) shs))"
  by (induction shs arbitrary: b) (simp_all add: add_shape_def split: option.splits)

lemma get_bounds_eq:
  "get_bounds_of_anim_control_shapes s control =
     (if shapes_of s control = []
      then (Inl (AssertionError (''No shapes on control '' @ control)), s)
      else (Inr (foldl add_point initial_bounds (sampled_points s control)),
            select (shapes_of s control) s))"
proof -
  have "map (\<lambda>i. shapes_of s control ! i) [0..<length (shapes_of s control)] = shapes_of s control"
    by (rule map_nth)
  then show ?thesis
    by (simp add: get_bounds_of_anim_control_shapes_def Let_def sampled_points_def
        foldl_add_shape [symmetric])
qed

lemma add_point_fields [simp]:
  "min_x (add_point b (x, y, z)) = min x (min_x b)"
  "min_y (add_point b (x, y, z)) = min y (min_y b)"
  "min_z (add_point b (x, y, z)) = min z (min_z b)"
  "max_x (add_point b (x, y, z)) = max x (max_x b)"
  "max_y (add_point b (x, y, z)) = max y (max_y b)"
  "max_z (add_point b (x, y, z)) = max z (max_z b)"
  by (simp_all add: add_point_def)

lemma foldl_add_point_ordered:
  "min_x b \<le> max_x b \<and> min_y b \<le> max_y b \<and> min_z b \<le> max_z b \<Longrightarrow>
   min_x (foldl add_point b ps) \<le> max_x (foldl add_point b ps) \<and>
   min_y (foldl add_point b ps) \<le> max_y (foldl add_point b ps) \<and>
   min_z (foldl add_point b ps) \<le> max_z (foldl add_point b ps)"
proof (induction ps arbitrary: b)
  case Nil
  then show ?case by simp
next
  case (Cons p ps)
  obtain x y z where p: "p = (x, y, z)" by (cases p)
  have "min_x (add_point b p) \<le> max_x (add_point b p) \<and>
        min_y (add_point b p) \<le> max_y (add_point b p) \<and>
        min_z (add_point b p) \<le> max_z (add_point b p)"
    using Cons.prems by (simp add: p min_le_iff_disj le_max_iff_disj)
  from Cons.IH [OF this] show ?case by simp
qed

lemma add_point_ordered:
  "min_x (add_point b p) \<le> max_x (add_point b p) \<and>
   min_y (add_point b p) \<le> max_y (add_point b p) \<and>
   min_z (add_point b p) \<le> max_z (add_point b p)"
  by (cases p) (simp add: min_le_iff_disj le_max_iff_disj)

lemma foldl_add_point_nonempty:
  "ps \<noteq> [] \<Longrightarrow>
   min_x (foldl add_point b ps) \<le> max_x (foldl add_point b ps) \<and>
   min_y (foldl add_point b ps) \<le> max_y (foldl add_point b ps) \<and>
   min_z (foldl add_point b ps) \<le> max_z (foldl add_point b ps)"
  by (cases ps) (simp_all add: foldl_add_point_ordered [OF add_point_ordered])

lemma get_centre_midpoint:
  "get_centre_in_bounds b =
     ((min_x b + max_x b) / 2, (min_y b + max_y b) / 2, (min_z b + max_z b) / 2)"
  by (simp add: get_centre_in_bounds_def vadd_def vsub_def vscale_def field_simps)

lemma select_select [simp]: "select a (select b s) = select a s"
  by (simp add: select_def)

lemma select_same [simp]: "select (selection s) s = s"
  by (simp add: select_def)

lemma sampled_points_select [simp]: "sampled_points (select xs s) = sampled_points s"
  by (rule ext) (simp add: sampled_points_def)

lemma control_centre_select [simp]: "control_centre (select xs s) = control_centre s"
  by (rule ext) (simp add: control_centre_def)

lemma target_centres_select [simp]: "target_centres (select xs s) = target_centres s"
  by (rule ext) (simp add: target_centres_def)

lemma loop_selection_Cons:
  "loop_selection s (i # rest) =
     (if shapes_of s i = [] then loop_selection s rest
      else loop_selection (select (shapes_of s i) s) rest)"
  by (simp add: loop_selection_def cong: if_cong)

lemma collect_centre_points_eq:
  "collect_centre_points s ts acc =
     (Inr (acc @ target_centres s ts), select (loop_selection s ts) s)"
proof (induction ts arbitrary: s acc)
  case Nil
  show ?case by (simp add: target_centres_def loop_selection_def)
next
  case (Cons i rest)
  show ?case
  proof (cases "shapes_of s i = []")
    case True
    then show ?thesis
      by (simp add: get_bounds_eq Cons.IH target_centres_def loop_selection_Cons)
  next
    case False
    then show ?thesis
      by (simp add: get_bounds_eq Cons.IH target_centres_def loop_selection_Cons
          control_centre_def)
  qed
qed

lemma framefit_animrig_eq:
  "framefit_animrig viewFit cam targets f s =
     (if snd (clean_targets s targets) = [] then (None, s)
      else
        let s2 = fitted viewFit cam targets s;
            todo = set_difference (snd (clean_targets s targets)) (invisible s2);
            s3 = select (loop_selection s2 todo) s2;
            p = cam_pos s2 cam;
            delta = max 0 (min f 1);
            coi = cam @ ''.centerOfInterest''
        in if f = 0 then (None, s3)
           else (None,
                 setAttr coi (of_int (py_int (attrs s2 coi * (1 - delta))))
                   (xform_set cam
                      (np_add p (np_scale (np_sub (np_mean (target_centres s2 todo)) p) delta))
                      s3)))"
  by (simp add: framefit_animrig_def fitted_def collect_centre_points_eq Let_def
      xform_set_def setAttr_def split: prod.splits)

lemma centre_points_of_eq:
  "centre_points_of viewFit cam targets s =
     Inr (target_centres (fitted viewFit cam targets s)
           (set_difference (snd (clean_targets s targets))
              (invisible (fitted viewFit cam targets s))))"
  by (simp add: centre_points_of_def collect_centre_points_eq Let_def)

lemma set_difference_mem:
  "i \<in> set (set_difference ts invis) \<longleftrightarrow> i \<in> set ts \<and> i \<notin> set invis"
  by (auto simp: set_difference_def)

lemma clean_targets_foldl:
  "foldl (clean_step s) (shs, ts) xs =
     (shs @ concat (map (shapes_of s) xs), ts @ filter (\<lambda>i. shapes_of s i \<noteq> []) xs)"
  by (induction xs arbitrary: shs ts) (simp_all add: clean_step_def Let_def)

lemma clean_targets_eq:
  "clean_targets s targets =
     (concat (map (shapes_of s) targets), filter (\<lambda>i. shapes_of s i \<noteq> []) targets)"
  by (simp add: clean_targets_def clean_targets_foldl)

lemma example_clean:
  "clean_targets example_scene [''a_anim'', ''b_anim''] =
     ([''a_animShape'', ''b_animShape''], [''a_anim'', ''b_anim''])"
  by (simp add: clean_targets_eq example_scene_def)

lemma framefit_animrig_no_shapes:
  "snd (clean_targets s targets) = [] \<Longrightarrow> framefit_animrig viewFit cam targets f s = (None, s)"
  by (simp add: framefit_animrig_eq)

lemma hidden_fields:
  "shapes_of hidden_scene = shapes_of example_scene"
  "curve_cvs hidden_scene = curve_cvs example_scene"
  "invisible hidden_scene = [''a_anim'', ''b_anim'']"
  "cam_pos hidden_scene = cam_pos example_scene"
  "attrs hidden_scene = attrs example_scene"
  by (simp_all add: hidden_scene_def)

lemma hidden_clean:
  "clean_targets hidden_scene [''a_anim'', ''b_anim''] =
     ([''a_animShape'', ''b_animShape''], [''a_anim'', ''b_anim''])"
  by (simp add: clean_targets_eq hidden_fields) (simp add: example_scene_def)

lemma clamp01_eq: "max 0 (min f 1) = clamp01 f"
  by (simp add: clamp01_def max_def min_def)

lemma example_one:
  "clean_targets example_scene [''a_anim''] = ([''a_animShape''], [''a_anim''])"
  by (simp add: clean_targets_eq example_scene_def)

lemma example_fitted_one:
  "fitted viewFit_none ''persp'' [''a_anim''] example_scene =
     select [''a_animShape''] example_scene"
  by (simp add: fitted_def viewFit_none_def example_one)

lemma example_coi: "attrs example_scene ''persp.centerOfInterest'' = 5 / 2"
  by (simp add: example_scene_def)

lemma xform_set_fields [simp]:
  "shapes_of (xform_set c p s) = shapes_of s"
  "curve_cvs (xform_set c p s) = curve_cvs s"
  "invisible (xform_set c p s) = invisible s"
  "cam_pos (xform_set c p s) = (cam_pos s)(c := p)"
  "attrs (xform_set c p s) = attrs s"
  "selection (xform_set c p s) = selection s"
  by (simp_all add: xform_set_def)

lemma setAttr_fields [simp]:
  "shapes_of (setAttr a v s) = shapes_of s"
  "curve_cvs (setAttr a v s) = curve_cvs s"
  "invisible (setAttr a v s) = invisible s"
  "cam_pos (setAttr a v s) = cam_pos s"
  "attrs (setAttr a v s) = (attrs s)(a := v)"
  "selection (setAttr a v s) = selection s"
  by (simp_all add: setAttr_def)

lemma example_shapes:
  "shapes_of example_scene ''a_anim'' = [''a_animShape'']"
  "shapes_of example_scene ''b_anim'' = [''b_animShape'']"
  "invisible example_scene = []"
  by (simp_all add: example_scene_def)

lemma example_centres:
  "control_centre example_scene ''a_anim'' = (1, 1, 1)"
  "control_centre example_scene ''b_anim'' = (5, 5, 5)"
  by (simp_all add: control_centre_def sampled_points_def example_scene_def initial_bounds_def
      get_centre_midpoint)

lemma clean_targets_cong:
  "shapes_of s' = shapes_of s \<Longrightarrow> clean_targets s' ts = clean_targets s ts"
  by (simp add: clean_targets_eq)

lemma xform_set_same: "cam_pos s cam = p \<Longrightarrow> xform_set cam p s = s"
proof -
  assume "cam_pos s cam = p"
  then have "(cam_pos s)(cam := p) = cam_pos s"
    by (simp add: fun_upd_idem_iff)
  then show ?thesis
    by (simp add: xform_set_def)
qed

lemma np_move_zero: "np_add p (np_scale (np_sub (Arr c) p) 0) = p"
  by (cases p; cases c) (auto simp: vadd_def vsub_def vscale_def split: prod.splits)

lemma example_centre_points_one:
  "centre_points_of viewFit_none ''persp'' [''a_anim''] example_scene = Inr [(1, 1, 1)]"
  by (simp add: centre_points_of_eq example_fitted_one example_one set_difference_def
      target_centres_def example_shapes example_centres)

lemma example_zero_one:
  "framefit_animrig viewFit_none ''persp'' [''a_anim''] 0 example_scene =
     (None, select [''a_animShape''] example_scene)"
  by (simp add: framefit_animrig_eq [where f = 0] example_one example_fitted_one Let_def
      set_difference_def example_shapes loop_selection_def)

lemma foldl_run_create_anim_threaded:
  "\<not> list_ex (\<lambda>i. is_hung (fst i)) jobs \<Longrightarrow>
   foldl run_create_anim_threaded (success, errors) jobs =
     (success @ map (\<lambda>i. (''Success'', snd i)) (filter (\<lambda>i. exit_code (fst i) = 0) jobs),
      errors @ map (\<lambda>i. (stderr_of (fst i), snd i)) (filter (\<lambda>i. exit_code (fst i) \<noteq> 0) jobs))"
proof (induction jobs arbitrary: success errors)
  case Nil
  show ?case by simp
next
  case (Cons j jobs)
  obtain p t where j: "j = (p, t)" by (cases j)
  from Cons.prems j obtain rc out err where p: "p = Exited rc out err"
    by (cases p) auto
  from Cons.prems have "\<not> list_ex (\<lambda>i. is_hung (fst i)) jobs" by simp
  from Cons.IH [OF this] show ?case
    by (simp add: j p exit_code_def stderr_of_def)
qed

lemma mset_scheduled:
  assumes "mset order = mset [0..<length processes]"
  shows "mset (map (\<lambda>k. processes ! k) order) = mset processes"
proof -
  have "mset (map (\<lambda>k. processes ! k) order) = image_mset (\<lambda>k. processes ! k) (mset order)"
    by simp
  also have "\<dots> = image_mset (\<lambda>k. processes ! k) (mset [0..<length processes])"
    by (simp only: assms)
  also have "\<dots> = mset (map (\<lambda>k. processes ! k) [0..<length processes])"
    by simp
  also have "\<dots> = mset processes"
    by (simp only: map_nth)
  finally show ?thesis .
qed

lemma scheduled_not_hung:
  assumes "mset order = mset [0..<length processes]"
    and "\<not> list_ex (\<lambda>i. is_hung (fst i)) processes"
  shows "\<not> list_ex (\<lambda>i. is_hung (fst i)) (map (\<lambda>k. processes ! k) order)"
proof -
  have "set (map (\<lambda>k. processes ! k) order) = set processes"
    using mset_scheduled [OF assms(1)] by (rule mset_eq_setD)
  with assms(2) show ?thesis
    by (simp only: list_ex_iff) blast
qed

lemma distinct_set_difference: "distinct (set_difference ts invis)"
  by (simp add: set_difference_def)

lemma target_centres_append:
  "target_centres s (xs @ ys) = target_centres s xs @ target_centres s ys"
  by (simp add: target_centres_def)

lemma target_centres_Cons:
  "shapes_of s i \<noteq> [] \<Longrightarrow> target_centres s (i # ys) = control_centre s i # target_centres s ys"
  by (simp add: target_centres_def)

section \<open>Properties of the frame-fit arithmetic\<close>



text \<open>
  C9: whenever \<open>get_bounds_of_anim_control_shapes\<close> returns an extent for a control,
  the extent has \<open>min \<le> max\<close> on every axis if at least one control vertex was sampled
  from the control's curve shapes, and it is the fixed initial extent if none was.
\<close>

theorem get_bounds_ordered:
  "get_bounds_of_anim_control_shapes s control = (Inr b, s') \<Longrightarrow>
     (sampled_points s control \<noteq> [] \<longrightarrow>
        min_x b \<le> max_x b \<and> min_y b \<le> max_y b \<and> min_z b \<le> max_z b) \<and>
     (sampled_points s control = [] \<longrightarrow>
        b = \<lparr>min_x = 9999999, min_y = 9999999, min_z = 9999999,
             max_x = -9999999, max_y = -9999999, max_z = -9999999\<rparr>)"
  by (auto simp: get_bounds_eq initial_bounds_def split: if_splits
      dest: foldl_add_point_nonempty)

text \<open>A control with a two-point curve, and a control whose only shape is not a curve.\<close>

theorem get_bounds_ordered_witness:
  "(\<exists>b s'. get_bounds_of_anim_control_shapes example_scene ''a_anim'' = (Inr b, s') \<and>
       sampled_points example_scene ''a_anim'' \<noteq> [] \<and>
       min_x b \<le> max_x b \<and> min_y b \<le> max_y b \<and> min_z b \<le> max_z b) \<and>
   (\<exists>b s'. get_bounds_of_anim_control_shapes example_scene ''c_anim'' = (Inr b, s') \<and>
       sampled_points example_scene ''c_anim'' = [] \<and>
       b = \<lparr>min_x = 9999999, min_y = 9999999, min_z = 9999999,
            max_x = -9999999, max_y = -9999999, max_z = -9999999\<rparr>)"
proof -
  have ga: "get_bounds_of_anim_control_shapes example_scene ''a_anim'' =
      (Inr (foldl add_point initial_bounds (sampled_points example_scene ''a_anim'')),
       select (shapes_of example_scene ''a_anim'') example_scene)"
    by (simp add: get_bounds_eq example_scene_def)
  have gc: "get_bounds_of_anim_control_shapes example_scene ''c_anim'' =
      (Inr (foldl add_point initial_bounds (sampled_points example_scene ''c_anim'')),
       select (shapes_of example_scene ''c_anim'') example_scene)"
    by (simp add: get_bounds_eq example_scene_def)
  have pa: "sampled_points example_scene ''a_anim'' \<noteq> []"
    by (simp add: sampled_points_def example_scene_def)
  have pc: "sampled_points example_scene ''c_anim'' = []"
    by (simp add: sampled_points_def example_scene_def)
  show ?thesis
    using get_bounds_ordered [OF ga] get_bounds_ordered [OF gc] ga gc pa pc by blast
qed

text \<open>
  C10: for a control with at least one shape from which no control vertex is sampled,
  \<open>get_bounds_of_anim_control_shapes\<close> returns the inverted initial extent without
  raising, and the centre of that extent is the origin. When such a control is a visible
  target, \<open>framefit_animrig\<close> does not skip it: the control occurs once among the targets
  the second loop visits, the list of collected centre points has the origin at the
  control's place between the centres of the controls visited before and after it, and
  the camera is moved toward the mean of that list.
\<close>

theorem get_bounds_no_points:
  "(shapes_of s control \<noteq> [] \<and> sampled_points s control = [] \<longrightarrow>
      get_bounds_of_anim_control_shapes s control =
        (Inr \<lparr>min_x = 9999999, min_y = 9999999, min_z = 9999999,
              max_x = -9999999, max_y = -9999999, max_z = -9999999\<rparr>,
         select (shapes_of s control) s)) \<and>
   get_centre_in_bounds
     \<lparr>min_x = 9999999, min_y = 9999999, min_z = 9999999,
      max_x = -9999999, max_y = -9999999, max_z = -9999999\<rparr> = (0, 0, 0) \<and>
   (control \<in> set targets \<and> shapes_of s control \<noteq> [] \<and>
    control \<notin> set (invisible (fitted viewFit cam targets s)) \<and>
    shapes_of (fitted viewFit cam targets s) control \<noteq> [] \<and>
    sampled_points (fitted viewFit cam targets s) control = [] \<longrightarrow>
      (\<exists>todo1 todo2.
         set_difference (snd (clean_targets s targets))
           (invisible (fitted viewFit cam targets s)) = todo1 @ control # todo2 \<and>
         control \<notin> set todo1 \<and> control \<notin> set todo2 \<and>
         centre_points_of viewFit cam targets s =
           Inr (target_centres (fitted viewFit cam targets s) todo1 @
                (0, 0, 0) # target_centres (fitted viewFit cam targets s) todo2) \<and>
         fst (framefit_animrig viewFit cam targets f s) = None \<and>
         (f \<noteq> 0 \<longrightarrow>
            cam_pos (snd (framefit_animrig viewFit cam targets f s)) cam =
              np_add (cam_pos (fitted viewFit cam targets s) cam)
                (np_scale
                   (np_sub
                      (np_mean (target_centres (fitted viewFit cam targets s) todo1 @
                                (0, 0, 0) # target_centres (fitted viewFit cam targets s) todo2))
                      (cam_pos (fitted viewFit cam targets s) cam))
                   (clamp01 f)))))"
proof (intro conjI impI)
  assume "shapes_of s control \<noteq> [] \<and> sampled_points s control = []"
  then show "get_bounds_of_anim_control_shapes s control =
        (Inr \<lparr>min_x = 9999999, min_y = 9999999, min_z = 9999999,
              max_x = -9999999, max_y = -9999999, max_z = -9999999\<rparr>,
         select (shapes_of s control) s)"
    by (simp add: get_bounds_eq initial_bounds_def)
next
  show "get_centre_in_bounds
     \<lparr>min_x = 9999999, min_y = 9999999, min_z = 9999999,
      max_x = -9999999, max_y = -9999999, max_z = -9999999\<rparr> = (0, 0, 0)"
    by (simp add: get_centre_midpoint)
next
  let ?s2 = "fitted viewFit cam targets s"
  let ?todo = "set_difference (snd (clean_targets s targets)) (invisible ?s2)"
  assume a: "control \<in> set targets \<and> shapes_of s control \<noteq> [] \<and>
    control \<notin> set (invisible ?s2) \<and> shapes_of ?s2 control \<noteq> [] \<and>
    sampled_points ?s2 control = []"
  then have mem: "control \<in> set ?todo"
    by (simp add: set_difference_mem clean_targets_eq)
  then obtain todo1 todo2 where split: "?todo = todo1 @ control # todo2"
    by (auto simp: in_set_conv_decomp)
  have "distinct ?todo"
    by (rule distinct_set_difference)
  then have out: "control \<notin> set todo1" "control \<notin> set todo2"
    by (simp_all add: split)
  have origin: "control_centre ?s2 control = (0, 0, 0)"
    using a by (simp add: control_centre_def get_centre_midpoint initial_bounds_def)
  have tc: "target_centres ?s2 ?todo =
      target_centres ?s2 todo1 @ (0, 0, 0) # target_centres ?s2 todo2"
    using a by (simp add: split target_centres_append target_centres_Cons origin)
  have cps: "centre_points_of viewFit cam targets s =
      Inr (target_centres ?s2 todo1 @ (0, 0, 0) # target_centres ?s2 todo2)"
    by (simp add: centre_points_of_eq tc)
  have ne: "snd (clean_targets s targets) \<noteq> []"
    using a by (auto simp: clean_targets_eq filter_empty_conv)
  have ok: "fst (framefit_animrig viewFit cam targets f s) = None"
    by (simp add: framefit_animrig_eq Let_def)
  have pos: "f \<noteq> 0 \<longrightarrow>
      cam_pos (snd (framefit_animrig viewFit cam targets f s)) cam =
        np_add (cam_pos ?s2 cam)
          (np_scale
             (np_sub (np_mean (target_centres ?s2 todo1 @ (0, 0, 0) # target_centres ?s2 todo2))
                (cam_pos ?s2 cam))
             (clamp01 f))"
    using ne by (simp add: framefit_animrig_eq Let_def tc clamp01_eq)
  from split out cps ok pos
  show "\<exists>todo1 todo2.
         ?todo = todo1 @ control # todo2 \<and>
         control \<notin> set todo1 \<and> control \<notin> set todo2 \<and>
         centre_points_of viewFit cam targets s =
           Inr (target_centres ?s2 todo1 @ (0, 0, 0) # target_centres ?s2 todo2) \<and>
         fst (framefit_animrig viewFit cam targets f s) = None \<and>
         (f \<noteq> 0 \<longrightarrow>
            cam_pos (snd (framefit_animrig viewFit cam targets f s)) cam =
              np_add (cam_pos ?s2 cam)
                (np_scale
                   (np_sub
                      (np_mean (target_centres ?s2 todo1 @ (0, 0, 0) # target_centres ?s2 todo2))
                      (cam_pos ?s2 cam))
                   (clamp01 f)))"
    by blast
qed

text \<open>
  A target with a curve and a target whose only shape is a mesh: the centre points are
  \<open>(1,1,1)\<close> and the origin, and with fraction 1 the camera moves to their mean
  \<open>(0.5,0.5,0.5)\<close>, not to \<open>(1,1,1)\<close>.
\<close>

theorem get_bounds_no_points_witness:
  "get_bounds_of_anim_control_shapes example_scene ''c_anim'' =
     (Inr \<lparr>min_x = 9999999, min_y = 9999999, min_z = 9999999,
           max_x = -9999999, max_y = -9999999, max_z = -9999999\<rparr>,
      select [''c_animMesh''] example_scene) \<and>
   set_difference (snd (clean_targets example_scene [''a_anim'', ''c_anim'']))
     (invisible (fitted viewFit_none ''persp'' [''a_anim'', ''c_anim''] example_scene)) =
     [''a_anim''] @ ''c_anim'' # [] \<and>
   centre_points_of viewFit_none ''persp'' [''a_anim'', ''c_anim''] example_scene =
     Inr [(1, 1, 1), (0, 0, 0)] \<and>
   np_mean [(1, 1, 1), (0, 0, 0)] = Arr (1 / 2, 1 / 2, 1 / 2) \<and>
   cam_pos (snd (framefit_animrig viewFit_none ''persp'' [''a_anim'', ''c_anim''] 1 example_scene))
     ''persp'' = Arr (1 / 2, 1 / 2, 1 / 2)"
proof -
  have 1: "shapes_of example_scene ''c_anim'' = [''c_animMesh'']"
    "shapes_of example_scene ''a_anim'' = [''a_animShape'']"
    "invisible example_scene = []"
    "cam_pos example_scene ''persp'' = Arr (3, 3, -7)"
    by (simp_all add: example_scene_def)
  have 2: "sampled_points example_scene ''c_anim'' = []"
    by (simp add: sampled_points_def example_scene_def)
  have cl: "clean_targets example_scene [''a_anim'', ''c_anim''] =
      ([''a_animShape'', ''c_animMesh''], [''a_anim'', ''c_anim''])"
    by (simp add: clean_targets_eq 1)
  have 3: "fitted viewFit_none ''persp'' [''a_anim'', ''c_anim''] example_scene =
      select [''a_animShape'', ''c_animMesh''] example_scene"
    by (simp add: fitted_def viewFit_none_def cl)
  have td: "set_difference [''a_anim'', ''c_anim''] [] = [''a_anim'', ''c_anim'']"
    by (simp add: set_difference_def)
  have c0: "control_centre example_scene ''c_anim'' = (0, 0, 0)"
    by (simp add: control_centre_def 2 initial_bounds_def get_centre_midpoint)
  have tc: "target_centres example_scene [''a_anim'', ''c_anim''] = [(1, 1, 1), (0, 0, 0)]"
    by (simp add: target_centres_def 1 example_centres c0)
  have m: "np_mean [(1, 1, 1), (0, 0, 0)] = Arr (1 / 2, 1 / 2, 1 / 2)"
    by (simp add: np_mean_def)
  have pos: "cam_pos (snd (framefit_animrig viewFit_none ''persp'' [''a_anim'', ''c_anim''] 1
      example_scene)) ''persp'' = Arr (1 / 2, 1 / 2, 1 / 2)"
    by (simp add: framefit_animrig_eq Let_def cl 3 1 td tc m vadd_def vsub_def vscale_def)
  show ?thesis
    using get_bounds_no_points [of example_scene "''c_anim''" "[''a_anim'', ''c_anim'']" viewFit_none
        "''persp''" 1]
    by (simp add: 1 2 3 cl td centre_points_of_eq tc m pos vadd_def vsub_def vscale_def)
qed

section \<open>Properties of framefit_animrig\<close>

text \<open>
  C1 (as amended): when the function collects a non-empty list of centre points with mean
  \<open>c\<close>, and \<open>p\<close> is the camera position after the host's initial auto-fit (the position
  the function reads, not the one the camera had before the call), then for every zoom
  fraction \<open>f\<close> the call returns normally and leaves the camera at
  \<open>p + (c - p) * clamp(f, 0, 1)\<close>.
\<close>

theorem framefit_animrig_position:
  assumes "centre_points_of viewFit cam targets s = Inr centre_points"
    and "centre_points \<noteq> []"
    and "np_mean centre_points = Arr c"
    and "cam_pos (fitted viewFit cam targets s) cam = Arr p"
  shows "fst (framefit_animrig viewFit cam targets f s) = None \<and>
         cam_pos (snd (framefit_animrig viewFit cam targets f s)) cam =
           Arr (vadd p (vscale (vsub c p) (clamp01 f)))"
proof -
  let ?s2 = "fitted viewFit cam targets s"
  let ?todo = "set_difference (snd (clean_targets s targets)) (invisible ?s2)"
  have cps: "target_centres ?s2 ?todo = centre_points"
    using assms(1) by (simp add: centre_points_of_eq)
  have ne: "snd (clean_targets s targets) \<noteq> []"
  proof
    assume "snd (clean_targets s targets) = []"
    then have "target_centres ?s2 ?todo = []"
      by (simp add: target_centres_def set_difference_def)
    with cps assms(2) show False by simp
  qed
  have delta: "max 0 (min f 1) = clamp01 f"
    by (simp add: clamp01_def max_def min_def)
  have zero: "vadd p (vscale (vsub c p) 0) = p"
    by (cases p; cases c) (simp add: vadd_def vscale_def vsub_def)
  show ?thesis
  proof (cases "f = 0")
    case True
    then show ?thesis
      using ne assms(4) by (simp add: framefit_animrig_eq Let_def clamp01_def zero)
  next
    case False
    then show ?thesis
      using ne assms(3,4)
      by (simp add: framefit_animrig_eq Let_def cps delta xform_set_def setAttr_def)
  qed
qed

text \<open>
  The extents \<open>(0,0,0,2,2,2)\<close> and \<open>(4,4,4,6,6,6)\<close> have the mean centre \<open>(3,3,3)\<close>; a
  camera at \<open>(3,3,-7)\<close> with fraction 0.5 moves to \<open>(3,3,-2)\<close>.
\<close>

theorem framefit_animrig_position_witness:
  "centre_points_of viewFit_none ''persp'' [''a_anim'', ''b_anim''] example_scene =
     Inr [(1, 1, 1), (5, 5, 5)] \<and>
   np_mean [(1, 1, 1), (5, 5, 5)] = Arr (3, 3, 3) \<and>
   cam_pos example_scene ''persp'' = Arr (3, 3, -7) \<and>
   fst (framefit_animrig viewFit_none ''persp'' [''a_anim'', ''b_anim''] 0.5 example_scene) = None \<and>
   cam_pos (snd (framefit_animrig viewFit_none ''persp'' [''a_anim'', ''b_anim''] 0.5 example_scene))
     ''persp'' = Arr (3, 3, -2)"
proof -
  have f: "fitted viewFit_none ''persp'' [''a_anim'', ''b_anim''] example_scene =
      select [''a_animShape'', ''b_animShape''] example_scene"
    by (simp add: fitted_def viewFit_none_def example_clean)
  have sa: "sampled_points example_scene ''a_anim'' = [(0, 0, 0), (2, 2, 2)]"
    by (simp add: sampled_points_def example_scene_def)
  have sb: "sampled_points example_scene ''b_anim'' = [(4, 4, 4), (6, 6, 6)]"
    by (simp add: sampled_points_def example_scene_def)
  have ca: "control_centre example_scene ''a_anim'' = (1, 1, 1)"
    by (simp add: control_centre_def sa initial_bounds_def get_centre_midpoint)
  have cb: "control_centre example_scene ''b_anim'' = (5, 5, 5)"
    by (simp add: control_centre_def sb initial_bounds_def get_centre_midpoint)
  have sh: "shapes_of example_scene ''a_anim'' \<noteq> []" "shapes_of example_scene ''b_anim'' \<noteq> []"
    "invisible example_scene = []"
    by (simp_all add: example_scene_def)
  have cps: "centre_points_of viewFit_none ''persp'' [''a_anim'', ''b_anim''] example_scene =
      Inr [(1, 1, 1), (5, 5, 5)]"
    by (simp add: centre_points_of_eq f example_clean set_difference_def target_centres_def
        sh ca cb)
  have m: "np_mean [(1, 1, 1), (5, 5, 5)] = Arr (3, 3, 3)"
    by (simp add: np_mean_def)
  have p: "cam_pos (fitted viewFit_none ''persp'' [''a_anim'', ''b_anim''] example_scene) ''persp''
      = Arr (3, 3, -7)"
    by (simp add: f) (simp add: example_scene_def)
  have p0: "cam_pos example_scene ''persp'' = Arr (3, 3, -7)"
    by (simp add: example_scene_def)
  show ?thesis
    using framefit_animrig_position [OF cps _ m p, of "0.5"] cps m p0
    by (simp add: vadd_def vscale_def vsub_def clamp01_def)
qed

text \<open>
  With the camera's position before the call for \<open>p\<close> the statement fails: when the
  host's auto-fit puts the camera at \<open>(3,3,-17)\<close>, a camera that was at \<open>(3,3,-7)\<close>, with
  mean centre \<open>(3,3,3)\<close> and fraction 0.5, ends at \<open>(3,3,-7)\<close> and not at \<open>(3,3,-2)\<close>.
\<close>

theorem framefit_animrig_position_counterexample:
  "cam_pos example_scene ''persp'' = Arr (3, 3, -7) \<and>
   centre_points_of viewFit_far ''persp'' [''a_anim'', ''b_anim''] example_scene =
     Inr [(1, 1, 1), (5, 5, 5)] \<and>
   np_mean [(1, 1, 1), (5, 5, 5)] = Arr (3, 3, 3) \<and>
   vadd (3, 3, -7) (vscale (vsub (3, 3, 3) (3, 3, -7)) (clamp01 (1 / 2))) = (3, 3, -2) \<and>
   cam_pos (snd (framefit_animrig viewFit_far ''persp'' [''a_anim'', ''b_anim''] (1 / 2)
                   example_scene)) ''persp'' = Arr (3, 3, -7) \<and>
   cam_pos (snd (framefit_animrig viewFit_far ''persp'' [''a_anim'', ''b_anim''] (1 / 2)
                   example_scene)) ''persp'' \<noteq>
     Arr (vadd (3, 3, -7) (vscale (vsub (3, 3, 3) (3, 3, -7)) (clamp01 (1 / 2))))"
proof -
  let ?ts = "[''a_anim'', ''b_anim'']"
  have p0: "cam_pos example_scene ''persp'' = Arr (3, 3, -7)"
    by (simp add: example_scene_def)
  have f1: "fitted viewFit_far ''persp'' ?ts example_scene =
      xform_set ''persp'' (Arr (3, 3, -17)) (select [''a_animShape'', ''b_animShape''] example_scene)"
    by (simp add: fitted_def viewFit_far_def example_clean)
  have tc: "target_centres
      (xform_set ''persp'' (Arr (3, 3, -17)) (select [''a_animShape'', ''b_animShape''] example_scene))
      ?ts = [(1, 1, 1), (5, 5, 5)]"
    by (simp add: target_centres_def control_centre_def sampled_points_def example_shapes)
       (simp add: example_scene_def initial_bounds_def get_centre_midpoint)
  have cps: "centre_points_of viewFit_far ''persp'' ?ts example_scene = Inr [(1, 1, 1), (5, 5, 5)]"
    by (simp add: centre_points_of_eq f1 example_clean set_difference_def example_shapes tc)
  have m: "np_mean [(1, 1, 1), (5, 5, 5)] = Arr (3, 3, 3)"
    by (simp add: np_mean_def)
  have v: "vadd (3, 3, -7) (vscale (vsub (3, 3, 3) (3, 3, -7)) (clamp01 (1 / 2))) = (3, 3, -2)"
    by (simp add: vadd_def vscale_def vsub_def clamp01_def)
  have pos: "cam_pos (snd (framefit_animrig viewFit_far ''persp'' ?ts (1 / 2) example_scene))
      ''persp'' = Arr (3, 3, -7)"
    by (simp add: framefit_animrig_eq example_clean f1 Let_def set_difference_def example_shapes
        tc np_mean_def vadd_def vsub_def vscale_def)
  show ?thesis
    by (simp only: p0 cps m v pos) simp
qed

text \<open>
  C4 (as amended): when at least one target has a shape and the clamped zoom fraction is
  not 0, the call returns normally and leaves the camera's \<open>centerOfInterest\<close> at
  \<open>int(d * (1 - delta))\<close>, the product truncated toward zero to an integer, where \<open>d\<close> is
  the value stored when the function reads it (after the host's auto-fit).
\<close>

theorem framefit_animrig_centerOfInterest:
  assumes "snd (clean_targets s targets) \<noteq> []" and "clamp01 f \<noteq> 0"
  shows "fst (framefit_animrig viewFit cam targets f s) = None \<and>
         attrs (snd (framefit_animrig viewFit cam targets f s)) (cam @ ''.centerOfInterest'') =
           of_int (py_int (attrs (fitted viewFit cam targets s) (cam @ ''.centerOfInterest'') *
                           (1 - clamp01 f)))"
proof -
  from assms(2) have "f \<noteq> 0"
    by (auto simp: clamp01_def)
  with assms(1) show ?thesis
    by (simp add: framefit_animrig_eq Let_def clamp01_eq setAttr_def)
qed

text \<open>A stored distance of 2.5 and a fraction of 0.25 give \<open>int(1.875) = 1\<close>.\<close>

theorem framefit_animrig_centerOfInterest_witness:
  "snd (clean_targets example_scene [''a_anim'']) \<noteq> [] \<and> clamp01 0.25 \<noteq> 0 \<and>
   attrs (fitted viewFit_none ''persp'' [''a_anim''] example_scene) ''persp.centerOfInterest'' = 5 / 2 \<and>
   attrs (snd (framefit_animrig viewFit_none ''persp'' [''a_anim''] 0.25 example_scene))
     ''persp.centerOfInterest'' = 1"
proof -
  have 1: "snd (clean_targets example_scene [''a_anim'']) \<noteq> []"
    by (simp add: example_one)
  have 2: "clamp01 0.25 \<noteq> 0"
    by (simp add: clamp01_def)
  have 3: "py_int (5 / 2 * (1 - clamp01 0.25)) = 1"
    by (simp add: py_int_def clamp01_def)
  show ?thesis
    using framefit_animrig_centerOfInterest [OF 1 2, of viewFit_none "''persp''"] 1 2 3
    by (simp add: example_fitted_one example_coi)
qed

text \<open>
  The distance is not adjusted exactly proportionally: in the example scene the stored
  distance 2.5 becomes 1, not \<open>2.5 * 0.75 = 1.875\<close>.
\<close>

theorem framefit_animrig_centerOfInterest_counterexample:
  "clamp01 0.25 \<noteq> 0 \<and>
   attrs example_scene ''persp.centerOfInterest'' = 5 / 2 \<and>
   attrs (fitted viewFit_none ''persp'' [''a_anim''] example_scene) ''persp.centerOfInterest'' = 5 / 2 \<and>
   attrs (snd (framefit_animrig viewFit_none ''persp'' [''a_anim''] 0.25 example_scene))
     ''persp.centerOfInterest'' = 1 \<and>
   attrs (snd (framefit_animrig viewFit_none ''persp'' [''a_anim''] 0.25 example_scene))
     ''persp.centerOfInterest'' \<noteq> 5 / 2 * (1 - clamp01 0.25)"
  by (simp add: framefit_animrig_eq example_one example_fitted_one example_coi Let_def
      setAttr_def clamp01_def py_int_def)

text \<open>
  C5 (as amended): a second call with zoom fraction 0 returns normally and writes no
  camera position of its own. It leaves the camera where it was after the first call when
  no target has a shape, and otherwise where the host's auto-fit of the second call puts
  it.
\<close>

theorem framefit_animrig_zero_again:
  "fst (framefit_animrig viewFit cam targets 0 (snd (framefit_animrig viewFit cam targets f s))) = None \<and>
   cam_pos (snd (framefit_animrig viewFit cam targets 0
                   (snd (framefit_animrig viewFit cam targets f s)))) cam =
     (if snd (clean_targets (snd (framefit_animrig viewFit cam targets f s)) targets) = []
      then cam_pos (snd (framefit_animrig viewFit cam targets f s)) cam
      else cam_pos (fitted viewFit cam targets (snd (framefit_animrig viewFit cam targets f s))) cam)"
  by (simp add: framefit_animrig_eq [where f = 0] Let_def)

text \<open>With an auto-fit that does not move the camera the position is unchanged.\<close>

theorem framefit_animrig_zero_again_witness:
  "cam_pos (snd (framefit_animrig viewFit_none ''persp'' [''a_anim''] 0
      (snd (framefit_animrig viewFit_none ''persp'' [''a_anim''] (1 / 2) example_scene))))
     ''persp'' =
   cam_pos (snd (framefit_animrig viewFit_none ''persp'' [''a_anim''] (1 / 2) example_scene))
     ''persp''"
  using framefit_animrig_zero_again [of viewFit_none "''persp''" "[''a_anim'']" "1 / 2" example_scene]
  by (simp add: fitted_def viewFit_none_def)

text \<open>
  With an auto-fit that puts the camera at \<open>(3,3,-17)\<close>, the first call (fraction 0.5)
  leaves the camera at \<open>(3,3,-7)\<close> and the second call (fraction 0) at \<open>(3,3,-17)\<close>.
\<close>

theorem framefit_animrig_zero_again_counterexample:
  "cam_pos (snd (framefit_animrig viewFit_far ''persp'' [''a_anim'', ''b_anim''] (1 / 2) example_scene))
     ''persp'' = Arr (3, 3, -7) \<and>
   cam_pos (snd (framefit_animrig viewFit_far ''persp'' [''a_anim'', ''b_anim''] 0
      (snd (framefit_animrig viewFit_far ''persp'' [''a_anim'', ''b_anim''] (1 / 2) example_scene))))
     ''persp'' = Arr (3, 3, -17)"
proof -
  let ?ts = "[''a_anim'', ''b_anim'']"
  let ?s1 = "snd (framefit_animrig viewFit_far ''persp'' ?ts (1 / 2) example_scene)"
  have f1: "fitted viewFit_far ''persp'' ?ts example_scene =
      xform_set ''persp'' (Arr (3, 3, -17)) (select [''a_animShape'', ''b_animShape''] example_scene)"
    by (simp add: fitted_def viewFit_far_def example_clean)
  have tc: "target_centres
      (xform_set ''persp'' (Arr (3, 3, -17)) (select [''a_animShape'', ''b_animShape''] example_scene))
      ?ts = [(1, 1, 1), (5, 5, 5)]"
    by (simp add: target_centres_def control_centre_def sampled_points_def example_shapes)
       (simp add: example_scene_def initial_bounds_def get_centre_midpoint)
  have first: "cam_pos ?s1 ''persp'' = Arr (3, 3, -7)"
    by (simp add: framefit_animrig_eq example_clean f1 Let_def set_difference_def example_shapes
        tc np_mean_def vadd_def vsub_def vscale_def)
  have sh: "shapes_of ?s1 = shapes_of example_scene"
    by (simp add: framefit_animrig_eq example_clean f1 Let_def)
  have cl: "clean_targets ?s1 ?ts = ([''a_animShape'', ''b_animShape''], ?ts)"
    by (simp add: clean_targets_cong [OF sh] example_clean)
  have second: "cam_pos (snd (framefit_animrig viewFit_far ''persp'' ?ts 0 ?s1)) ''persp'' =
      Arr (3, 3, -17)"
    by (simp add: framefit_animrig_eq [where f = 0] cl Let_def fitted_def viewFit_far_def)
  show ?thesis
    using first second by simp
qed

text \<open>
  C6 (as amended): every fraction above 1 has exactly the effect of fraction 1. A fraction
  below 0 returns as fraction 0 does, has exactly the effect of fraction 0 when no target
  has a shape, and, when at least one centre point was collected, leaves the scene that
  fraction 0 leaves except that \<open>centerOfInterest\<close> is truncated toward zero to an
  integer.
\<close>

theorem framefit_animrig_clamping:
  "(1 < f \<longrightarrow>
      framefit_animrig viewFit cam targets f s = framefit_animrig viewFit cam targets 1 s) \<and>
   (f < 0 \<longrightarrow>
      fst (framefit_animrig viewFit cam targets f s) =
      fst (framefit_animrig viewFit cam targets 0 s)) \<and>
   (f < 0 \<and> snd (clean_targets s targets) = [] \<longrightarrow>
      framefit_animrig viewFit cam targets f s = framefit_animrig viewFit cam targets 0 s) \<and>
   (f < 0 \<and> centre_points_of viewFit cam targets s = Inr centre_points \<and> centre_points \<noteq> [] \<longrightarrow>
      snd (framefit_animrig viewFit cam targets f s) =
        setAttr (cam @ ''.centerOfInterest'')
          (of_int (py_int (attrs (snd (framefit_animrig viewFit cam targets 0 s))
                             (cam @ ''.centerOfInterest''))))
          (snd (framefit_animrig viewFit cam targets 0 s)))"
proof (intro conjI impI)
  assume "1 < f"
  then show "framefit_animrig viewFit cam targets f s = framefit_animrig viewFit cam targets 1 s"
    by (simp add: framefit_animrig_eq Let_def)
next
  assume "f < 0"
  then show "fst (framefit_animrig viewFit cam targets f s) =
      fst (framefit_animrig viewFit cam targets 0 s)"
    by (simp add: framefit_animrig_eq Let_def)
next
  assume "f < 0 \<and> snd (clean_targets s targets) = []"
  then show "framefit_animrig viewFit cam targets f s = framefit_animrig viewFit cam targets 0 s"
    by (simp add: framefit_animrig_no_shapes)
next
  let ?s2 = "fitted viewFit cam targets s"
  let ?todo = "set_difference (snd (clean_targets s targets)) (invisible ?s2)"
  let ?s3 = "select (loop_selection ?s2 ?todo) ?s2"
  assume a: "f < 0 \<and> centre_points_of viewFit cam targets s = Inr centre_points \<and>
    centre_points \<noteq> []"
  then have cps: "target_centres ?s2 ?todo = centre_points"
    by (simp add: centre_points_of_eq)
  have ne: "snd (clean_targets s targets) \<noteq> []"
  proof
    assume "snd (clean_targets s targets) = []"
    then have "target_centres ?s2 ?todo = []"
      by (simp add: target_centres_def set_difference_def)
    with cps a show False by simp
  qed
  obtain c where c: "np_mean centre_points = Arr c"
    using a by (simp add: np_mean_def)
  have delta: "max 0 (min f 1) = 0"
    using a by simp
  have zero: "framefit_animrig viewFit cam targets 0 s = (None, ?s3)"
    using ne by (simp add: framefit_animrig_eq [where f = 0] Let_def)
  have same: "xform_set cam (np_add (cam_pos ?s2 cam) (np_scale (np_sub (Arr c) (cam_pos ?s2 cam)) 0)) ?s3
      = ?s3"
    by (rule xform_set_same) (simp add: np_move_zero)
  have "framefit_animrig viewFit cam targets f s =
      (None, setAttr (cam @ ''.centerOfInterest'')
               (of_int (py_int (attrs ?s2 (cam @ ''.centerOfInterest'')))) ?s3)"
    using ne a by (simp add: framefit_animrig_eq [where f = f] Let_def delta cps c same)
  then show "snd (framefit_animrig viewFit cam targets f s) =
        setAttr (cam @ ''.centerOfInterest'')
          (of_int (py_int (attrs (snd (framefit_animrig viewFit cam targets 0 s))
                             (cam @ ''.centerOfInterest''))))
          (snd (framefit_animrig viewFit cam targets 0 s))"
    by (simp add: zero)
qed

text \<open>Fractions 2 and -1 in the example scene, whose stored distance is 2.5.\<close>

theorem framefit_animrig_clamping_witness:
  "framefit_animrig viewFit_none ''persp'' [''a_anim''] 2 example_scene =
     framefit_animrig viewFit_none ''persp'' [''a_anim''] 1 example_scene \<and>
   fst (framefit_animrig viewFit_none ''persp'' [''a_anim''] (-1) example_scene) = None \<and>
   framefit_animrig viewFit_none ''persp'' [] (-1) example_scene =
     framefit_animrig viewFit_none ''persp'' [] 0 example_scene \<and>
   snd (framefit_animrig viewFit_none ''persp'' [''a_anim''] (-1) example_scene) =
     setAttr ''persp.centerOfInterest'' 2 (select [''a_animShape''] example_scene)"
proof -
  have t: "py_int (5 / 2) = 2"
    by (simp add: py_int_def)
  have e: "snd (clean_targets example_scene []) = []"
    by (simp add: clean_targets_eq)
  show ?thesis
    using framefit_animrig_clamping [of 2 viewFit_none "''persp''" "[''a_anim'']" example_scene]
      framefit_animrig_clamping [of "-1" viewFit_none "''persp''" "[''a_anim'']" example_scene "[(1, 1, 1)]"]
      framefit_animrig_clamping [of "-1" viewFit_none "''persp''" "[]" example_scene]
    by (simp add: example_centre_points_one example_zero_one example_coi t e)
qed

text \<open>
  Fraction -1 does not have the effect of fraction 0: it stores the distance 2, fraction 0
  leaves 2.5.
\<close>

theorem framefit_animrig_clamping_counterexample:
  "attrs (snd (framefit_animrig viewFit_none ''persp'' [''a_anim''] (-1) example_scene))
     ''persp.centerOfInterest'' = 2 \<and>
   attrs (snd (framefit_animrig viewFit_none ''persp'' [''a_anim''] 0 example_scene))
     ''persp.centerOfInterest'' = 5 / 2 \<and>
   framefit_animrig viewFit_none ''persp'' [''a_anim''] (-1) example_scene \<noteq>
     framefit_animrig viewFit_none ''persp'' [''a_anim''] 0 example_scene"
proof -
  have 1: "attrs (snd (framefit_animrig viewFit_none ''persp'' [''a_anim''] (-1) example_scene))
     ''persp.centerOfInterest'' = 2"
    by (simp add: framefit_animrig_eq example_one example_fitted_one Let_def example_coi
        py_int_def)
  have 2: "attrs (snd (framefit_animrig viewFit_none ''persp'' [''a_anim''] 0 example_scene))
     ''persp.centerOfInterest'' = 5 / 2"
    by (simp add: example_zero_one example_coi)
  from 1 2 show ?thesis by auto
qed

text \<open>
  C3: the effect of the call when every target has a shape and every target is hidden. No
  centre point is collected, the mean of the empty list is \<open>nan\<close>, and the call writes
  both the camera position and \<open>centerOfInterest\<close>.
\<close>

theorem framefit_animrig_all_hidden:
  "shapes_of hidden_scene ''a_anim'' = [''a_animShape''] \<and>
   shapes_of hidden_scene ''b_anim'' = [''b_animShape''] \<and>
   invisible hidden_scene = [''a_anim'', ''b_anim''] \<and>
   centre_points_of viewFit_none ''persp'' [''a_anim'', ''b_anim''] hidden_scene = Inr [] \<and>
   cam_pos hidden_scene ''persp'' = Arr (3, 3, -7) \<and>
   attrs hidden_scene ''persp.centerOfInterest'' = 5 / 2 \<and>
   fst (framefit_animrig viewFit_none ''persp'' [''a_anim'', ''b_anim''] 0.25 hidden_scene) = None \<and>
   cam_pos (snd (framefit_animrig viewFit_none ''persp'' [''a_anim'', ''b_anim''] 0.25 hidden_scene))
     ''persp'' = NaN \<and>
   attrs (snd (framefit_animrig viewFit_none ''persp'' [''a_anim'', ''b_anim''] 0.25 hidden_scene))
     ''persp.centerOfInterest'' = 1"
proof -
  have f: "fitted viewFit_none ''persp'' [''a_anim'', ''b_anim''] hidden_scene =
      select [''a_animShape'', ''b_animShape''] hidden_scene"
    by (simp add: fitted_def viewFit_none_def hidden_clean)
  have td: "set_difference [''a_anim'', ''b_anim''] [''a_anim'', ''b_anim''] = []"
    by (simp add: set_difference_def)
  have ex: "shapes_of example_scene ''a_anim'' = [''a_animShape'']"
    "shapes_of example_scene ''b_anim'' = [''b_animShape'']"
    "cam_pos example_scene ''persp'' = Arr (3, 3, -7)"
    "attrs example_scene ''persp.centerOfInterest'' = 5 / 2"
    by (simp_all add: example_scene_def)
  have tr: "py_int (15 / 8) = 1"
    by (simp add: py_int_def)
  show ?thesis
    by (simp add: framefit_animrig_eq centre_points_of_eq f hidden_clean hidden_fields td ex
        target_centres_def np_mean_def xform_set_def setAttr_def Let_def tr)
qed

section \<open>Properties of the entry point\<close>

text \<open>
  C7: for every initial selection and every behaviour of the inner framing computation
  (whatever scene it leaves and whatever exception it raises), the entry point
  \<open>framefit_animrig_current_panel_to_selected\<close> propagates no exception, restores the
  original selection, and closes the undo chunk it opened after the inner computation:
  when the inner computation leaves the chunk nesting as it finds it, the nesting is back
  at its initial depth. The same holds for the entry point with \<open>framefit_animrig\<close> as the
  inner computation.
\<close>

theorem current_panel_to_selected_restores:
  "fst (framefit_animrig_current_panel_to_selected_with inner target_camera s) = None \<and>
   selection (snd (framefit_animrig_current_panel_to_selected_with inner target_camera s)) =
     selection s \<and>
   (\<exists>camera targets.
      snd (framefit_animrig_current_panel_to_selected_with inner target_camera s) =
        select (selection s) (undo_close (snd (inner camera targets 0.25 (undo_open s))))) \<and>
   ((\<forall>camera targets z s1. undo_depth (snd (inner camera targets z s1)) = undo_depth s1) \<longrightarrow>
      undo_depth (snd (framefit_animrig_current_panel_to_selected_with inner target_camera s)) =
        undo_depth s) \<and>
   fst (framefit_animrig_current_panel_to_selected viewFit target_camera s) = None \<and>
   selection (snd (framefit_animrig_current_panel_to_selected viewFit target_camera s)) =
     selection s"
proof -
  define camera where "camera =
    (case target_camera of
       None \<Rightarrow> (case panel_camera s of None \<Rightarrow> ''persp'' | Some c \<Rightarrow> c)
     | Some c \<Rightarrow> if c = [] then (case panel_camera s of None \<Rightarrow> ''persp'' | Some c \<Rightarrow> c) else c)"
  define targets where "targets =
    (if filter (is_xform (undo_open s)) (selection (undo_open s)) = []
     then get_all_rig_controls (undo_open s)
     else filter (is_xform (undo_open s)) (selection (undo_open s)))"
  have eq: "framefit_animrig_current_panel_to_selected_with inner target_camera s =
      (None, select (selection s) (undo_close (snd (inner camera targets 0.25 (undo_open s)))))"
    for inner
    by (simp add: framefit_animrig_current_panel_to_selected_with_def Let_def camera_def
        targets_def split: prod.splits option.splits)
  have depth: "undo_depth (undo_close s2) = undo_depth s2 - 1" for s2
    by (simp add: undo_close_def)
  have opened: "undo_depth (undo_open s) = Suc (undo_depth s)"
    by (simp add: undo_open_def)
  show ?thesis
    unfolding framefit_animrig_current_panel_to_selected_def
    by (auto simp: eq depth opened)
qed

text \<open>An inner computation that raises \<open>RuntimeError\<close> after changing the selection.\<close>

theorem current_panel_to_selected_restores_witness:
  "fst (failing_inner ''persp'' [''a_anim''] 0.25 (undo_open example_scene)) =
     Some (RuntimeError ''boom'') \<and>
   fst (framefit_animrig_current_panel_to_selected_with failing_inner None example_scene) = None \<and>
   selection (snd (framefit_animrig_current_panel_to_selected_with failing_inner None example_scene))
     = [''a_anim''] \<and>
   undo_depth (snd (framefit_animrig_current_panel_to_selected_with failing_inner None example_scene))
     = 0"
proof -
  have d: "\<forall>camera targets z s1.
      undo_depth (snd (failing_inner camera targets z s1)) = undo_depth s1"
    by (simp add: failing_inner_def xform_set_def)
  have s: "selection example_scene = [''a_anim'']" "undo_depth example_scene = 0"
    by (simp_all add: example_scene_def)
  show ?thesis
    using current_panel_to_selected_restores [of failing_inner None example_scene] d s
    by (simp add: failing_inner_def)
qed

section \<open>Properties of the batch launcher\<close>

text \<open>
  C2: the launcher returns only when every job has finished (with a job that never exits
  it never returns). When all jobs exit, whatever the order in which the threads record
  their results, it prints one success line for every job that exited with code 0 and
  the captured stderr of every job that exited non-zero, and it raises one
  \<open>AssertionError\<close> if and only if at least one job failed, naming exactly the failed
  jobs' output files (by \<open>path.name\<close>).
\<close>

theorem anim_rig_generator_aggregates:
  "(list_ex (\<lambda>i. is_hung (fst i)) processes \<longrightarrow> anim_rig_generator processes order = None) \<and>
   (\<not> list_ex (\<lambda>i. is_hung (fst i)) processes \<and> mset order = mset [0..<length processes] \<longrightarrow>
      (\<exists>succeeded failed.
         mset succeeded = mset (filter (\<lambda>i. exit_code (fst i) = 0) processes) \<and>
         mset failed = mset (filter (\<lambda>i. exit_code (fst i) \<noteq> 0) processes) \<and>
         anim_rig_generator processes order =
           Some (map (\<lambda>i. ''CreateAnim: '' @ path_str (snd i)) succeeded @
                 map (\<lambda>i. stderr_of (fst i)) failed,
                 if failed = [] then None
                 else Some (AssertionError
                        (''Failed Files: '' @ join '', '' (map (\<lambda>i. path_name (snd i)) failed))))))"
proof (intro conjI impI)
  assume "list_ex (\<lambda>i. is_hung (fst i)) processes"
  then show "anim_rig_generator processes order = None"
    by (simp add: anim_rig_generator_def)
next
  let ?jobs = "map (\<lambda>k. processes ! k) order"
  let ?succeeded = "filter (\<lambda>i. exit_code (fst i) = 0) ?jobs"
  let ?failed = "filter (\<lambda>i. exit_code (fst i) \<noteq> 0) ?jobs"
  assume a: "\<not> list_ex (\<lambda>i. is_hung (fst i)) processes \<and>
    mset order = mset [0..<length processes]"
  have perm: "mset ?jobs = mset processes"
    by (rule mset_scheduled [OF conjunct2 [OF a]])
  have nh: "\<not> list_ex (\<lambda>i. is_hung (fst i)) ?jobs"
    by (rule scheduled_not_hung [OF conjunct2 [OF a] conjunct1 [OF a]])
  have run: "foldl run_create_anim_threaded ([], []) ?jobs =
      (map (\<lambda>i. (''Success'', snd i)) ?succeeded, map (\<lambda>i. (stderr_of (fst i), snd i)) ?failed)"
    using foldl_run_create_anim_threaded [OF nh, of "[]" "[]"] by simp
  have 1: "mset ?succeeded = mset (filter (\<lambda>i. exit_code (fst i) = 0) processes)"
    by (simp only: mset_filter perm)
  have 2: "mset ?failed = mset (filter (\<lambda>i. exit_code (fst i) \<noteq> 0) processes)"
    by (simp only: mset_filter perm)
  have 3: "anim_rig_generator processes order =
      Some (map (\<lambda>i. ''CreateAnim: '' @ path_str (snd i)) ?succeeded @
            map (\<lambda>i. stderr_of (fst i)) ?failed,
            if ?failed = [] then None
            else Some (AssertionError
                   (''Failed Files: '' @ join '', '' (map (\<lambda>i. path_name (snd i)) ?failed))))"
    using a by (simp add: anim_rig_generator_def run o_def)
  from 1 2 3 show "\<exists>succeeded failed.
         mset succeeded = mset (filter (\<lambda>i. exit_code (fst i) = 0) processes) \<and>
         mset failed = mset (filter (\<lambda>i. exit_code (fst i) \<noteq> 0) processes) \<and>
         anim_rig_generator processes order =
           Some (map (\<lambda>i. ''CreateAnim: '' @ path_str (snd i)) succeeded @
                 map (\<lambda>i. stderr_of (fst i)) failed,
                 if failed = [] then None
                 else Some (AssertionError
                        (''Failed Files: '' @ join '', '' (map (\<lambda>i. path_name (snd i)) failed))))"
    by blast
qed

text \<open>
  Three jobs of which only the second exits non-zero, recorded in the order 3, 1, 2: the
  failure names the second job's file, the other two are reported as successes.
\<close>

theorem anim_rig_generator_aggregates_witness:
  "\<not> list_ex (\<lambda>i. is_hung (fst i)) three_jobs \<and>
   mset [2, 0, 1] = mset [0..<length three_jobs] \<and>
   anim_rig_generator three_jobs [2, 0, 1] =
     Some ([''CreateAnim: out/C_Anim.mb'', ''CreateAnim: out/A_Anim.mb'', ''boom''],
           Some (AssertionError ''Failed Files: B_Anim.mb'')) \<and>
   anim_rig_generator [(Hung, \<lparr>path_str = ''out/A_Anim.mb'', path_name = ''A_Anim.mb''\<rparr>)] [0] = None"
proof -
  have 1: "\<not> list_ex (\<lambda>i. is_hung (fst i)) three_jobs"
    by (simp add: three_jobs_def)
  have 2: "mset [2, 0, 1] = mset [0..<length three_jobs]"
    by (simp add: three_jobs_def upt_rec numeral_3_eq_3)
  have 3: "anim_rig_generator three_jobs [2, 0, 1] =
     Some ([''CreateAnim: out/C_Anim.mb'', ''CreateAnim: out/A_Anim.mb'', ''boom''],
           Some (AssertionError ''Failed Files: B_Anim.mb''))"
    by (simp add: anim_rig_generator_def three_jobs_def)
  show ?thesis
    using anim_rig_generator_aggregates [of three_jobs "[2, 0, 1]"]
      anim_rig_generator_aggregates [of "[(Hung, \<lparr>path_str = ''out/A_Anim.mb'', path_name = ''A_Anim.mb''\<rparr>)]" "[0]"]
      1 2 3
    by simp
qed

end
